theory Spec2Isabelle
  imports Complex_Main
begin

section \<open>Values and exceptions\<close>

text \<open>
  The evaluator is Python. A value that reaches the scoring code comes from the
  configuration or from the JSON reply of the vision model, so it is one of the JSON
  shapes. Floats are modelled as exact rationals: IEEE rounding, NaN and the range limit
  of \<open>float()\<close> on very large integers are outside the model. Dicts keep their insertion
  order, so they are association lists. A character is a code point below 256.
\<close>

datatype pyval =
    PyNone
  | PyBool bool
  | PyInt int
  | PyFloat rat
  | PyStr string
  | PyList "pyval list"
  | PyDict "(string \<times> pyval) list"

text \<open>An exception carries the text \<open>str(e)\<close> gives.\<close>

datatype exn =
    TypeError string
  | AttributeError string
  | ValueError string
  | ZeroDivisionError string
  | IndexError string
  | External string

fun exn_str :: "exn \<Rightarrow> string" where
  "exn_str (TypeError m) = m"
| "exn_str (AttributeError m) = m"
| "exn_str (ValueError m) = m"
| "exn_str (ZeroDivisionError m) = m"
| "exn_str (IndexError m) = m"
| "exn_str (External m) = m"

definition quoted :: "string \<Rightarrow> string" where
  "quoted s = [CHR 0x27] @ s @ [CHR 0x27]"

fun type_name :: "pyval \<Rightarrow> string" where
  "type_name PyNone = ''NoneType''"
| "type_name (PyBool b) = ''bool''"
| "type_name (PyInt i) = ''int''"
| "type_name (PyFloat x) = ''float''"
| "type_name (PyStr s) = ''str''"
| "type_name (PyList l) = ''list''"
| "type_name (PyDict d) = ''dict''"

text \<open>\<open>isinstance(v, (int, float))\<close>; \<open>bool\<close> is a subclass of \<open>int\<close>.\<close>

fun is_number :: "pyval \<Rightarrow> bool" where
  "is_number (PyBool b) = True"
| "is_number (PyInt i) = True"
| "is_number (PyFloat x) = True"
| "is_number v = False"

text \<open>The numeric value of a number (\<open>0\<close> stands for a value that has none).\<close>

fun number_value :: "pyval \<Rightarrow> rat" where
  "number_value (PyBool b) = (if b then 1 else 0)"
| "number_value (PyInt i) = of_int i"
| "number_value (PyFloat x) = x"
| "number_value v = 0"

text \<open>
  \<open>float(v)\<close>. Python parses a string argument; the evaluator calls \<open>float\<close> only
  after it has replaced every non-number, and the model records the conversion of a
  string as failing.
\<close>

definition py_float :: "pyval \<Rightarrow> exn + rat" where
  "py_float v =
     (if is_number v then Inr (number_value v)
      else case v of
             PyStr s \<Rightarrow> Inl (ValueError (''could not convert string to float: '' @ s))
           | _ \<Rightarrow> Inl (TypeError (''float() argument must be a string or a real number, not ''
                                  @ quoted (type_name v))))"

text \<open>\<open>score * weight\<close> with a float weight.\<close>

definition py_mul :: "pyval \<Rightarrow> rat \<Rightarrow> exn + rat" where
  "py_mul v w =
     (if is_number v then Inr (number_value v * w)
      else case v of
             PyStr s \<Rightarrow>
               Inl (TypeError (''can't multiply sequence by non-int of type '' @ quoted ''float''))
           | PyList l \<Rightarrow>
               Inl (TypeError (''can't multiply sequence by non-int of type '' @ quoted ''float''))
           | _ \<Rightarrow>
               Inl (TypeError (''unsupported operand type(s) for *: '' @ quoted (type_name v)
                               @ '' and '' @ quoted ''float'')))"

text \<open>\<open>d.get(key, default)\<close>: only a dict has the method.\<close>

definition py_get :: "pyval \<Rightarrow> string \<Rightarrow> pyval \<Rightarrow> exn + pyval" where
  "py_get d key dflt =
     (case d of
        PyDict kvs \<Rightarrow> Inr (case map_of kvs key of None \<Rightarrow> dflt | Some v \<Rightarrow> v)
      | _ \<Rightarrow> Inl (AttributeError (quoted (type_name d) @ '' object has no attribute ''
                                   @ quoted ''get'')))"

text \<open>
  \<open>round(x, n)\<close> on the exact value: to the nearest multiple of \<open>10\<^sup>-\<^sup>n\<close>, a tie
  going to the even neighbour.
\<close>

definition round_half_even :: "rat \<Rightarrow> int" where
  "round_half_even y =
     (let f = \<lfloor>y\<rfloor>; d = y - of_int f
      in if d < 1 / 2 then f
         else if 1 / 2 < d then f + 1
         else if even f then f else f + 1)"

definition py_round :: "rat \<Rightarrow> nat \<Rightarrow> rat" where
  "py_round x n = of_int (round_half_even (x * 10 ^ n)) / 10 ^ n"

text \<open>\<open>s.startswith(p)\<close>, \<open>s.strip(chars)\<close> and \<open>s.strip()\<close>.\<close>

definition startswith :: "string \<Rightarrow> string \<Rightarrow> bool" where
  "startswith s p \<longleftrightarrow> take (length p) s = p"

definition py_strip :: "string \<Rightarrow> string \<Rightarrow> string" where
  "py_strip chars s =
     rev (dropWhile (\<lambda>c. c \<in> set chars) (rev (dropWhile (\<lambda>c. c \<in> set chars) s)))"

definition whitespace :: string where
  "whitespace = [CHR 0x09, CHR 0x0A, CHR 0x0B, CHR 0x0C, CHR 0x0D, CHR 0x1C, CHR 0x1D,
                 CHR 0x1E, CHR 0x1F, CHR 0x20, CHR 0x85, CHR 0xA0]"

text \<open>Sequencing of calls that may raise.\<close>

definition bind :: "exn + 'a \<Rightarrow> ('a \<Rightarrow> exn + 'b) \<Rightarrow> exn + 'b" where
  "bind m f = (case m of Inl e \<Rightarrow> Inl e | Inr x \<Rightarrow> f x)"

section \<open>Technical descriptors (design_analyzer.py)\<close>

type_synonym pixel = "nat \<times> nat \<times> nat"
type_synonym centroid = "rat \<times> rat \<times> rat"

record color_descriptor =
  dominant_colors :: "(int \<times> int \<times> int) list"
  average_rgb :: "rat list"
  contrast_level :: rat
  brightness :: rat
  color_diversity :: nat

text \<open>
  \<open>horizontal_balance\<close> is \<open>None\<close> where numpy gives NaN (the mean of an empty half).
\<close>

record layout_descriptor =
  content_density :: rat
  line_count :: nat
  sections_detected :: nat
  horizontal_balance :: "rat option"
  whitespace_ratio :: rat
  image_dimensions :: "nat \<times> nat"

record typography_descriptor =
  text_regions_detected :: nat
  average_text_height :: rat
  text_height_consistency :: rat
  text_coverage_ratio :: rat
  estimated_readability :: rat

datatype technical =
    TypographyData typography_descriptor
  | ColorData color_descriptor
  | LayoutData layout_descriptor
  | EmptyData

record category_result =
  score :: pyval
  analysis :: pyval
  recommendations :: pyval
  technical_data :: "technical option"

type_synonym analysis_results = "(string \<times> category_result) list"

text \<open>
  What the libraries and the vision model answer for one screenshot. Each field is the
  outcome of one external call in \<open>analyze_design\<close> and the analyzers it runs:
  reading and base64-encoding the file, the chat completion (the content of the first
  choice, which may be \<open>None\<close>), \<open>json.loads\<close>, \<open>Image.open\<close>, the conversion of the
  image to its RGB pixels, \<open>np.random.choice(n, k, replace=False)\<close> on numpy's global
  generator (which the program never seeds), \<open>KMeans(n_clusters, random_state).fit\<close>
  and its centres, the PIL and numpy statistics, \<open>cv2.cvtColor\<close> to grey (which raises
  when \<open>cv2.imread\<close> returned \<open>None\<close>), Canny with \<open>cv2.HoughLines\<close> (the number of
  lines, or \<open>None\<close>), and the descriptor \<open>_analyze_typography\<close> returns.
\<close>

record analysis_env =
  read_image_b64 :: "exn + string"
  chat_completion :: "string \<Rightarrow> exn + string option"
  json_loads :: "string \<Rightarrow> exn + pyval"
  image_open :: "exn + unit"
  to_rgb_pixels :: "exn + pixel list"
  random_choice :: "nat \<Rightarrow> nat \<Rightarrow> exn + nat list"
  kmeans_centers :: "nat \<Rightarrow> nat \<Rightarrow> pixel list \<Rightarrow> exn + centroid list"
  stat_mean :: "exn + rat list"
  gray_std :: "exn + rat"
  gray_mean :: "exn + rat"
  cvt_gray :: "exn + nat list list"
  hough_lines :: "exn + nat option"
  typography_analysis :: typography_descriptor

section \<open>The vision model's analysis\<close>

definition analysis_unavailable :: string where
  "analysis_unavailable = ''An'' @ [CHR 0xE1] @ ''lisis no disponible''"

text \<open>The dict the \<open>except\<close> branch of \<open>_analyze_with_openai\<close> returns.\<close>

definition openai_failure_default :: pyval where
  "openai_failure_default = PyDict
     [(''typography_score'', PyInt 70),
      (''typography_analysis'', PyStr analysis_unavailable),
      (''typography_recommendations'', PyList [PyStr ''Verificar contraste de texto'']),
      (''color_score'', PyInt 70),
      (''color_analysis'', PyStr analysis_unavailable),
      (''color_recommendations'', PyList [PyStr ''Revisar esquema de colores'']),
      (''layout_score'', PyInt 70),
      (''layout_analysis'', PyStr analysis_unavailable),
      (''layout_recommendations'', PyList [PyStr ''Mejorar estructura visual'']),
      (''usability_score'', PyInt 70),
      (''usability_analysis'', PyStr analysis_unavailable),
      (''usability_recommendations'',
         PyList [PyStr (''Simplificar navegaci'' @ [CHR 0xF3] @ ''n'')]),
      (''modern_design_score'', PyInt 70),
      (''modern_design_analysis'', PyStr analysis_unavailable),
      (''modern_design_recommendations'',
         PyList [PyStr (''Actualizar dise'' @ [CHR 0xF1] @ ''o visual'')])]"

text \<open>The dict \<open>_get_default_ai_analysis\<close> returns.\<close>

definition automatic_analysis :: "string \<Rightarrow> pyval" where
  "automatic_analysis what =
     PyStr (''An'' @ [CHR 0xE1] @ ''lisis autom'' @ [CHR 0xE1] @ ''tico: '' @ what)"

definition get_default_ai_analysis :: pyval where
  "get_default_ai_analysis = PyDict
     [(''typography_score'', PyInt 70),
      (''typography_analysis'',
         automatic_analysis (''Tipograf'' @ [CHR 0xED] @ ''a est'' @ [CHR 0xE1] @ ''ndar detectada'')),
      (''typography_recommendations'',
         PyList [PyStr ''Verificar legibilidad del texto'', PyStr ''Considerar mejores contrastes'']),
      (''color_score'', PyInt 70),
      (''color_analysis'',
         automatic_analysis (''Esquema de colores b'' @ [CHR 0xE1] @ ''sico'')),
      (''color_recommendations'',
         PyList [PyStr (''Revisar armon'' @ [CHR 0xED] @ ''a crom'' @ [CHR 0xE1] @ ''tica''),
                 PyStr ''Mejorar contraste'']),
      (''layout_score'', PyInt 70),
      (''layout_analysis'', automatic_analysis ''Estructura de layout convencional''),
      (''layout_recommendations'',
         PyList [PyStr ''Optimizar espaciado'',
                 PyStr (''Mejorar jerarqu'' @ [CHR 0xED] @ ''a visual'')]),
      (''usability_score'', PyInt 70),
      (''usability_analysis'',
         automatic_analysis (''Usabilidad b'' @ [CHR 0xE1] @ ''sica'')),
      (''usability_recommendations'',
         PyList [PyStr (''Simplificar navegaci'' @ [CHR 0xF3] @ ''n''),
                 PyStr ''Mejorar accesibilidad'']),
      (''modern_design_score'', PyInt 70),
      (''modern_design_analysis'',
         automatic_analysis (''Dise'' @ [CHR 0xF1] @ ''o funcional'')),
      (''modern_design_recommendations'',
         PyList [PyStr ''Modernizar elementos visuales'', PyStr ''Seguir tendencias actuales''])]"

text \<open>
  The \<open>try\<close> block of \<open>_analyze_with_openai\<close>: read the file, call the model, clean a
  reply that starts with the markdown fence, parse it.
\<close>

definition openai_request :: "analysis_env \<Rightarrow> exn + pyval" where
  "openai_request env =
     bind (read_image_b64 env) (\<lambda>base64_image.
     bind (chat_completion env base64_image) (\<lambda>reply.
       case reply of
         None \<Rightarrow> Inl (AttributeError (quoted ''NoneType'' @ '' object has no attribute ''
                                      @ quoted ''startswith''))
       | Some content \<Rightarrow>
           json_loads env
             (if startswith content ''```json''
              then py_strip whitespace (py_strip ''```'' (py_strip ''```json'' content))
              else content)))"

definition analyze_with_openai :: "analysis_env \<Rightarrow> exn + pyval" where
  "analyze_with_openai env =
     (case openai_request env of
        Inl e \<Rightarrow> Inr openai_failure_default
      | Inr parsed \<Rightarrow> Inr parsed)"

section \<open>Colour analysis\<close>

text \<open>\<open>astype(int)\<close> truncates towards zero.\<close>

definition astype_int :: "rat \<Rightarrow> int" where
  "astype_int x = (if 0 \<le> x then \<lfloor>x\<rfloor> else \<lceil>x\<rceil>)"

text \<open>\<open>pixels[idx]\<close>: numpy raises on an index outside the array.\<close>

definition take_pixels :: "pixel list \<Rightarrow> nat list \<Rightarrow> exn + pixel list" where
  "take_pixels pixels idx =
     (if \<forall>i \<in> set idx. i < length pixels then Inr (map (\<lambda>i. pixels ! i) idx)
      else Inl (IndexError ''index is out of bounds for axis 0''))"

definition default_color_analysis :: color_descriptor where
  "default_color_analysis =
     \<lparr>dominant_colors = [(128, 128, 128)], average_rgb = [128, 128, 128],
      contrast_level = 50, brightness = 128, color_diversity = 100\<rparr>"

text \<open>The \<open>try\<close> block of \<open>_analyze_colors\<close>.\<close>

definition color_request :: "analysis_env \<Rightarrow> exn + color_descriptor" where
  "color_request env =
     bind (to_rgb_pixels env) (\<lambda>pixels.
     let sample_size = min 10000 (length pixels) in
     bind (random_choice env (length pixels) sample_size) (\<lambda>idx.
     bind (take_pixels pixels idx) (\<lambda>sample_pixels.
     bind (kmeans_centers env 5 42 sample_pixels) (\<lambda>cluster_centers.
     bind (gray_std env) (\<lambda>contrast.
     bind (stat_mean env) (\<lambda>mean.
     bind (gray_mean env) (\<lambda>bright.
       Inr \<lparr>dominant_colors =
              map (\<lambda>(r, g, b). (astype_int r, astype_int g, astype_int b)) cluster_centers,
            average_rgb = mean,
            contrast_level = contrast,
            brightness = bright,
            color_diversity = card (set (take 1000 sample_pixels))\<rparr>)))))))"

definition analyze_colors :: "analysis_env \<Rightarrow> exn + color_descriptor" where
  "analyze_colors env =
     (case color_request env of
        Inl e \<Rightarrow> Inr default_color_analysis
      | Inr d \<Rightarrow> Inr d)"

section \<open>Layout analysis\<close>

text \<open>
  The loop of \<open>_find_sections\<close>: the state is \<open>(sections, in_section, section_start)\<close>,
  \<open>i\<close> the index \<open>enumerate\<close> gives.
\<close>

fun find_sections_loop ::
  "rat \<Rightarrow> nat \<Rightarrow> rat list \<Rightarrow> (nat \<times> nat) list \<times> bool \<times> nat \<Rightarrow> (nat \<times> nat) list \<times> bool \<times> nat" where
  "find_sections_loop threshold i [] st = st"
| "find_sections_loop threshold i (v # vs) (sections, in_section, section_start) =
     (if v < threshold \<and> \<not> in_section
        then find_sections_loop threshold (Suc i) vs (sections, True, i)
      else if threshold \<le> v \<and> in_section
        then find_sections_loop threshold (Suc i) vs (sections @ [(section_start, i)], False, section_start)
      else find_sections_loop threshold (Suc i) vs (sections, in_section, section_start))"

definition find_sections :: "rat list \<Rightarrow> rat \<Rightarrow> (nat \<times> nat) list" where
  "find_sections vertical_profile threshold =
     (case find_sections_loop threshold 0 vertical_profile ([], False, 0) of
        (sections, in_section, section_start) \<Rightarrow>
          if in_section then sections @ [(section_start, length vertical_profile)] else sections)"

text \<open>\<open>np.mean\<close> of grey values; \<open>None\<close> is the NaN of an empty array.\<close>

definition np_mean :: "nat list \<Rightarrow> rat option" where
  "np_mean xs = (if xs = [] then None else Some (of_nat (sum_list xs) / of_nat (length xs)))"

definition default_layout_analysis :: layout_descriptor where
  "default_layout_analysis =
     \<lparr>content_density = 1 / 2, line_count = 0, sections_detected = 3,
      horizontal_balance = Some 10, whitespace_ratio = 3 / 10,
      image_dimensions = (1920, 1080)\<rparr>"

text \<open>
  The \<open>try\<close> block of \<open>_analyze_layout\<close>. The grey image is a list of rows; an image
  without pixels makes the division raise.
\<close>

definition layout_request :: "analysis_env \<Rightarrow> exn + layout_descriptor" where
  "layout_request env =
     bind (cvt_gray env) (\<lambda>gray.
     bind (hough_lines env) (\<lambda>lines.
     let height = length gray;
         width = (case gray of [] \<Rightarrow> 0 | row # _ \<Rightarrow> length row);
         total_pixels = height * width;
         content_pixels = length (filter (\<lambda>p. p < 240) (concat gray))
     in if total_pixels = 0 then Inl (ZeroDivisionError ''division by zero'')
        else
          let density = of_nat content_pixels / of_nat total_pixels;
              vertical_profile = map (\<lambda>row. of_nat (sum_list row) / of_nat (length row)) gray;
              sections = find_sections vertical_profile 10;
              left_half = map (take (width div 2)) gray;
              right_half = map (drop (width div 2)) gray;
              balance = (case (np_mean (concat left_half), np_mean (concat right_half)) of
                           (Some l, Some r) \<Rightarrow> Some \<bar>l - r\<bar>
                         | _ \<Rightarrow> None)
          in Inr \<lparr>content_density = density,
                  line_count = (case lines of None \<Rightarrow> 0 | Some n \<Rightarrow> n),
                  sections_detected = length sections,
                  horizontal_balance = balance,
                  whitespace_ratio = 1 - density,
                  image_dimensions = (width, height)\<rparr>))"

definition analyze_layout :: "analysis_env \<Rightarrow> exn + layout_descriptor" where
  "analyze_layout env =
     (case layout_request env of
        Inl e \<Rightarrow> Inr default_layout_analysis
      | Inr d \<Rightarrow> Inr d)"

section \<open>The complete analysis\<close>

text \<open>One entry of the result dict of \<open>analyze_design\<close>.\<close>

definition category_entry :: "pyval \<Rightarrow> string \<Rightarrow> technical option \<Rightarrow> exn + category_result" where
  "category_entry ai_analysis name tech =
     bind (py_get ai_analysis (name @ ''_score'') (PyInt 70)) (\<lambda>s.
     bind (py_get ai_analysis (name @ ''_analysis'') (PyStr [])) (\<lambda>a.
     bind (py_get ai_analysis (name @ ''_recommendations'') (PyList [])) (\<lambda>r.
       Inr \<lparr>score = s, analysis = a, recommendations = r, technical_data = tech\<rparr>)))"

definition analyze_design :: "analysis_env \<Rightarrow> exn + analysis_results" where
  "analyze_design env =
     bind (image_open env) (\<lambda>pil_image.
     let ai_analysis = (case analyze_with_openai env of
                          Inl e \<Rightarrow> get_default_ai_analysis
                        | Inr a \<Rightarrow> a);
         color_analysis = (case analyze_colors env of
                             Inl e \<Rightarrow> EmptyData
                           | Inr d \<Rightarrow> ColorData d)
     in
     bind (analyze_layout env) (\<lambda>layout_analysis.
     bind (category_entry ai_analysis ''typography''
             (Some (TypographyData (typography_analysis env)))) (\<lambda>typography.
     bind (category_entry ai_analysis ''color'' (Some color_analysis)) (\<lambda>color.
     bind (category_entry ai_analysis ''layout'' (Some (LayoutData layout_analysis))) (\<lambda>layout.
     bind (category_entry ai_analysis ''usability'' None) (\<lambda>usability.
     bind (category_entry ai_analysis ''modern_design'' None) (\<lambda>modern_design.
       Inr [(''typography'', typography), (''color'', color), (''layout'', layout),
            (''usability'', usability), (''modern_design'', modern_design)])))))))"

section \<open>Score aggregation (website_evaluator.py)\<close>

record score_range =
  range_min :: rat
  range_max :: rat
  range_color :: string

type_synonym weights_config = "(string \<times> rat) list"
type_synonym ranges_config = "(string \<times> score_range) list"

text \<open>
  The loop of \<open>_calculate_final_score\<close> over \<open>weights.items()\<close>, the running
  \<open>total_score\<close> as accumulator.
\<close>

fun final_score_loop :: "weights_config \<Rightarrow> analysis_results \<Rightarrow> rat \<Rightarrow> exn + rat" where
  "final_score_loop [] res total_score = Inr total_score"
| "final_score_loop ((category, weight) # rest) res total_score =
     (case map_of res category of
        None \<Rightarrow> final_score_loop rest res total_score
      | Some category_data \<Rightarrow>
          (case py_mul (score category_data) weight of
             Inl e \<Rightarrow> Inl e
           | Inr p \<Rightarrow> final_score_loop rest res (total_score + p)))"

definition calculate_final_score :: "weights_config \<Rightarrow> analysis_results \<Rightarrow> exn + rat" where
  "calculate_final_score weights res =
     (case final_score_loop weights res 0 of
        Inl e \<Rightarrow> Inl e
      | Inr total_score \<Rightarrow> Inr (py_round total_score 2))"

text \<open>The loop of \<open>get_score_category\<close> over \<open>ranges.items()\<close> and its fallback.\<close>

fun scan_ranges :: "ranges_config \<Rightarrow> rat \<Rightarrow> string" where
  "scan_ranges [] s = ''fair''"
| "scan_ranges ((category, range_data) # rest) s =
     (if range_min range_data \<le> s \<and> s \<le> range_max range_data then category
      else scan_ranges rest s)"

definition get_score_category :: "ranges_config \<Rightarrow> pyval \<Rightarrow> exn + string" where
  "get_score_category ranges score0 =
     (let score1 = (if score0 = PyNone then PyInt 50 else score0);
          score2 = (if \<not> is_number score1 then PyInt 50 else score1)
      in bind (py_float score2) (\<lambda>f. Inr (scan_ranges ranges (max 0 (min 100 f)))))"

text \<open>A range holds a score when the score lies within its inclusive bounds.\<close>

definition in_range :: "score_range \<Rightarrow> rat \<Rightarrow> bool" where
  "in_range r s \<longleftrightarrow> range_min r \<le> s \<and> s \<le> range_max r"

section \<open>Evaluation of one site and of a batch\<close>

record evaluation_data =
  url :: string
  timestamp :: string
  screenshot_path :: string
  cloud_url :: "string option"
  analysis_results :: analysis_results
  final_score :: rat
  evaluation_time :: rat
  report_path :: "string option"

text \<open>
  The evaluator with its configuration and its collaborators. A collaborator acts on the
  world \<open>'w\<close> (browser, network, files, clock), takes it and returns it changed;
  \<open>observe\<close> is what the libraries and the vision model answer for a screenshot in that
  world.
\<close>

record 'w evaluator =
  scoring_weights :: weights_config
  score_ranges :: ranges_config
  urlparse :: "string \<Rightarrow> exn + string \<times> string"
  capture_website :: "string \<Rightarrow> 'w \<Rightarrow> (exn + string) \<times> 'w"
  upload_screenshot :: "string \<Rightarrow> 'w \<Rightarrow> (exn + string option) \<times> 'w"
  observe :: "string \<Rightarrow> 'w \<Rightarrow> analysis_env \<times> 'w"
  generate_report :: "evaluation_data \<Rightarrow> 'w \<Rightarrow> (exn + string) \<times> 'w"
  log_evaluation :: "evaluation_data \<Rightarrow> 'w \<Rightarrow> (exn + bool) \<times> 'w"
  now_isoformat :: "'w \<Rightarrow> string \<times> 'w"
  time_time :: "'w \<Rightarrow> rat \<times> 'w"

definition validate_url :: "'w evaluator \<Rightarrow> string \<Rightarrow> bool" where
  "validate_url ev u =
     (case urlparse ev u of
        Inl e \<Rightarrow> False
      | Inr (scheme, netloc) \<Rightarrow> scheme \<noteq> [] \<and> netloc \<noteq> [])"

text \<open>Sequencing of actions on the world that may raise.\<close>

definition bind_w ::
  "('w \<Rightarrow> (exn + 'a) \<times> 'w) \<Rightarrow> ('a \<Rightarrow> 'w \<Rightarrow> (exn + 'b) \<times> 'w) \<Rightarrow> 'w \<Rightarrow> (exn + 'b) \<times> 'w" where
  "bind_w m f w = (case m w of (Inl e, w') \<Rightarrow> (Inl e, w') | (Inr x, w') \<Rightarrow> f x w')"

definition read_w :: "('w \<Rightarrow> 'a \<times> 'w) \<Rightarrow> 'w \<Rightarrow> (exn + 'a) \<times> 'w" where
  "read_w m w = (case m w of (x, w') \<Rightarrow> (Inr x, w'))"

definition pure_w :: "exn + 'a \<Rightarrow> 'w \<Rightarrow> (exn + 'a) \<times> 'w" where
  "pure_w r w = (r, w)"

definition evaluate_website ::
  "'w evaluator \<Rightarrow> string \<Rightarrow> bool \<Rightarrow> bool \<Rightarrow> 'w \<Rightarrow> (exn + evaluation_data) \<times> 'w" where
  "evaluate_website ev u save_to_cloud save_to_sheets =
     (if \<not> validate_url ev u
      then pure_w (Inl (ValueError (''URL inv'' @ [CHR 0xE1] @ ''lida: '' @ u)))
      else
        bind_w (read_w (time_time ev)) (\<lambda>start_time.
        bind_w (capture_website ev u) (\<lambda>path.
        bind_w (if save_to_cloud then upload_screenshot ev path else pure_w (Inr None)) (\<lambda>cloud.
        bind_w (read_w (observe ev path)) (\<lambda>env.
        bind_w (pure_w (analyze_design env)) (\<lambda>results.
        bind_w (pure_w (calculate_final_score (scoring_weights ev) results)) (\<lambda>final.
        bind_w (read_w (now_isoformat ev)) (\<lambda>stamp.
        bind_w (read_w (time_time ev)) (\<lambda>end_time.
        let data = \<lparr>url = u, timestamp = stamp, screenshot_path = path, cloud_url = cloud,
                    analysis_results = results, final_score = final,
                    evaluation_time = end_time - start_time, report_path = None\<rparr>
        in
        bind_w (generate_report ev data) (\<lambda>report.
        let data' = data\<lparr>report_path := Some report\<rparr> in
        bind_w (if save_to_sheets then log_evaluation ev data' else pure_w (Inr True)) (\<lambda>logged.
          pure_w (Inr data'))))))))))))"

datatype batch_entry =
    Evaluated evaluation_data
  | ErrorRecord string string string

text \<open>The URL an entry of the batch result is about.\<close>

fun entry_url :: "batch_entry \<Rightarrow> string" where
  "entry_url (Evaluated d) = url d"
| "entry_url (ErrorRecord u m t) = u"

text \<open>The loop of \<open>batch_evaluate\<close>, \<open>results\<close> the list it appends to.\<close>

fun batch_loop ::
  "'w evaluator \<Rightarrow> bool \<Rightarrow> bool \<Rightarrow> string list \<Rightarrow> batch_entry list \<Rightarrow> 'w \<Rightarrow> batch_entry list \<times> 'w" where
  "batch_loop ev save_to_cloud save_to_sheets [] results w = (results, w)"
| "batch_loop ev save_to_cloud save_to_sheets (u # urls) results w =
     (case evaluate_website ev u save_to_cloud save_to_sheets w of
        (Inr result, w') \<Rightarrow>
          batch_loop ev save_to_cloud save_to_sheets urls (results @ [Evaluated result]) w'
      | (Inl e, w') \<Rightarrow>
          (case now_isoformat ev w' of
             (stamp, w'') \<Rightarrow>
               batch_loop ev save_to_cloud save_to_sheets urls
                 (results @ [ErrorRecord u (exn_str e) stamp]) w''))"

definition batch_evaluate ::
  "'w evaluator \<Rightarrow> string list \<Rightarrow> bool \<Rightarrow> bool \<Rightarrow> 'w \<Rightarrow> batch_entry list \<times> 'w" where
  "batch_evaluate ev urls save_to_cloud save_to_sheets w =
     batch_loop ev save_to_cloud save_to_sheets urls [] w"

text \<open>What one slot of the batch holds after the evaluation of \<open>u\<close> in the world \<open>w\<close>.\<close>

definition batch_slot :: "'w evaluator \<Rightarrow> bool \<Rightarrow> bool \<Rightarrow> string \<Rightarrow> 'w \<Rightarrow> batch_entry" where
  "batch_slot ev save_to_cloud save_to_sheets u w =
     (case evaluate_website ev u save_to_cloud save_to_sheets w of
        (Inr result, w') \<Rightarrow> Evaluated result
      | (Inl e, w') \<Rightarrow> ErrorRecord u (exn_str e) (fst (now_isoformat ev w')))"

section \<open>The configuration and data of the repository's tests\<close>


definition test_weights :: weights_config where
  "test_weights = [(''typography'', 25 / 100), (''color'', 20 / 100), (''layout'', 25 / 100),
     (''usability'', 20 / 100), (''modern_design'', 10 / 100)]"


definition test_ranges :: ranges_config where
  "test_ranges = [(''excellent'', \<lparr>range_min = 90, range_max = 100, range_color = ''#4CAF50''\<rparr>),
                  (''poor'', \<lparr>range_min = 0, range_max = 59, range_color = ''#F44336''\<rparr>)]"

definition test_profile :: "rat list" where
  "test_profile = [5, 5, 5, 50, 50, 5, 5, 30, 30, 30, 5, 5]"

section \<open>Centroid clustering\<close>

text \<open>
  Modelled from the spec: the clustering is scikit-learn's \<open>KMeans\<close>, which is not part
  of the repository. The specification describes it as iterative centroid clustering,
  seeded deterministically, that partitions the sample into clusters and reports the
  cluster centroids. Here the seed picks the initial centroids among the sample's pixels;
  a round assigns every pixel to its nearest centroid (the first of several equally near)
  and moves each centroid to the mean of its pixels, a centroid without pixels staying
  where it is; 300 rounds are run, the library's default bound. A sample with fewer
  pixels than clusters is refused, as the library refuses it.
\<close>

definition as_centroid :: "pixel \<Rightarrow> centroid" where
  "as_centroid p = (case p of (r, g, b) \<Rightarrow> (of_nat r, of_nat g, of_nat b))"

definition sq_dist :: "centroid \<Rightarrow> pixel \<Rightarrow> rat" where
  "sq_dist c p =
     (case c of (cr, cg, cb) \<Rightarrow> case p of (r, g, b) \<Rightarrow>
        (cr - of_nat r)\<^sup>2 + (cg - of_nat g)\<^sup>2 + (cb - of_nat b)\<^sup>2)"

definition nearest :: "centroid list \<Rightarrow> pixel \<Rightarrow> nat" where
  "nearest cs p =
     (let ds = map (\<lambda>c. sq_dist c p) cs
      in length (takeWhile (\<lambda>d. d \<noteq> Min (set ds)) ds))"

definition centroid_of :: "pixel list \<Rightarrow> centroid" where
  "centroid_of ps =
     (of_nat (sum_list (map fst ps)) / of_nat (length ps),
      of_nat (sum_list (map (\<lambda>p. fst (snd p)) ps)) / of_nat (length ps),
      of_nat (sum_list (map (\<lambda>p. snd (snd p)) ps)) / of_nat (length ps))"

definition lloyd_round :: "pixel list \<Rightarrow> centroid list \<Rightarrow> centroid list" where
  "lloyd_round sample cs =
     map (\<lambda>j. let members = filter (\<lambda>p. nearest cs p = j) sample
              in if members = [] then cs ! j else centroid_of members)
         [0..<length cs]"

definition centroid_clustering :: "nat \<Rightarrow> nat \<Rightarrow> pixel list \<Rightarrow> exn + centroid list" where
  "centroid_clustering n_clusters seed sample =
     (if length sample < n_clusters
      then Inl (ValueError ''n_samples should be >= n_clusters'')
      else Inr ((lloyd_round sample ^^ 300)
                  (map (\<lambda>j. as_centroid (sample ! ((seed + j) mod length sample)))
                       [0..<n_clusters])))"

section \<open>Concrete environments\<close>

text \<open>
  An environment in which the image file opens and every other library call and the
  vision model fail, apart from the typography analyzer's answer.
\<close>

definition offline_env :: analysis_env where
  "offline_env =
     \<lparr>read_image_b64 = Inr ''iVBORw0KGgo='',
      chat_completion = (\<lambda>b. Inl (External ''Connection error.'')),
      json_loads = (\<lambda>s. Inl (ValueError ''Expecting value: line 1 column 1 (char 0)'')),
      image_open = Inr (),
      to_rgb_pixels = Inl (External ''image file is truncated''),
      random_choice = (\<lambda>n k. Inr [0..<k]),
      kmeans_centers = centroid_clustering,
      stat_mean = Inl (External ''image file is truncated''),
      gray_std = Inl (External ''image file is truncated''),
      gray_mean = Inl (External ''image file is truncated''),
      cvt_gray = Inl (External ''!_src.empty() in function cvtColor''),
      hough_lines = Inl (External ''!_src.empty() in function cvtColor''),
      typography_analysis =
        \<lparr>text_regions_detected = 10, average_text_height = 16,
         text_height_consistency = 7 / 10, text_coverage_ratio = 15 / 100,
         estimated_readability = 70\<rparr>\<rparr>"

text \<open>A grey image of two rows and four columns, left half dark, right half white.\<close>

definition small_gray_env :: analysis_env where
  "small_gray_env =
     offline_env\<lparr>cvt_gray := Inr [[0, 0, 255, 255], [100, 250, 255, 255]],
                 hough_lines := Inr None\<rparr>"



text \<open>
  An evaluator whose world is a clock count. The page of \<open>http://down.example\<close> does
  not load; every other capture succeeds; the analysis runs in the offline environment.
  Its \<open>urlparse\<close> splits an \<open>http\<close> URL into scheme and rest, which is all the URLs
  used here need.
\<close>

definition clock_stamps :: "string list" where
  "clock_stamps = [''2024-01-01T12:00:00'', ''2024-01-01T12:00:01'', ''2024-01-01T12:00:02'',
     ''2024-01-01T12:00:03'', ''2024-01-01T12:00:04'', ''2024-01-01T12:00:05'',
     ''2024-01-01T12:00:06'', ''2024-01-01T12:00:07'', ''2024-01-01T12:00:08'',
     ''2024-01-01T12:00:09'', ''2024-01-01T12:00:10'', ''2024-01-01T12:00:11'']"

definition demo_evaluator :: "nat evaluator" where
  "demo_evaluator =
     \<lparr>scoring_weights = test_weights,
      score_ranges = test_ranges,
      urlparse = (\<lambda>u. if take 7 u = ''http://'' then Inr (''http'', drop 7 u) else Inr ([], [])),
      capture_website = (\<lambda>u w. if u = ''http://down.example''
                                then (Inl (External ''page load timed out''), Suc w)
                                else (Inr (''screenshots/'' @ drop 7 u @ ''.png''), Suc w)),
      upload_screenshot = (\<lambda>path w. (Inr None, w)),
      observe = (\<lambda>path w. (offline_env, w)),
      generate_report = (\<lambda>d w. (Inr ''reports/report.pdf'', w)),
      log_evaluation = (\<lambda>d w. (Inr False, w)),
      now_isoformat = (\<lambda>w. (clock_stamps ! w, Suc w)),
      time_time = (\<lambda>w. (of_nat w, Suc w))\<rparr>"

definition demo_urls :: "string list" where
  "demo_urls = [''http://a.example'', ''http://down.example'', ''http://b.example'']"

section \<open>Notions used in the statements\<close>

text \<open>
  What the three analyzers hand to \<open>analyze_design\<close>: each catches every exception of
  its \<open>try\<close> block and answers with its default.
\<close>

definition ai_of :: "analysis_env \<Rightarrow> pyval" where
  "ai_of env = (case openai_request env of Inl e \<Rightarrow> openai_failure_default | Inr v \<Rightarrow> v)"

definition colors_of :: "analysis_env \<Rightarrow> color_descriptor" where
  "colors_of env = (case color_request env of Inl e \<Rightarrow> default_color_analysis | Inr d \<Rightarrow> d)"

definition layout_of :: "analysis_env \<Rightarrow> layout_descriptor" where
  "layout_of env = (case layout_request env of Inl e \<Rightarrow> default_layout_analysis | Inr d \<Rightarrow> d)"

text \<open>The entry \<open>analyze_design\<close> builds for a category from a reply that is a dict.\<close>

definition entry_of :: "(string \<times> pyval) list \<Rightarrow> string \<Rightarrow> technical option \<Rightarrow> category_result" where
  "entry_of kvs name tech =
     \<lparr>score = (case map_of kvs (name @ ''_score'') of None \<Rightarrow> PyInt 70 | Some v \<Rightarrow> v),
      analysis = (case map_of kvs (name @ ''_analysis'') of None \<Rightarrow> PyStr [] | Some v \<Rightarrow> v),
      recommendations = (case map_of kvs (name @ ''_recommendations'') of None \<Rightarrow> PyList [] | Some v \<Rightarrow> v),
      technical_data = tech\<rparr>"

text \<open>\<open>isinstance(v, dict)\<close>\<close>

fun is_dict :: "pyval \<Rightarrow> bool" where
  "is_dict (PyDict kvs) = True"
| "is_dict v = False"




section \<open>The weighted final score\<close>







section \<open>Score categories\<close>

lemma get_score_category_number:
  "is_number v \<Longrightarrow>
   get_score_category ranges v = Inr (scan_ranges ranges (max 0 (min 100 (number_value v))))"
  by (cases v) (simp_all add: get_score_category_def py_float_def bind_def)

lemma get_score_category_not_number:
  "\<not> is_number v \<Longrightarrow> get_score_category ranges v = Inr (scan_ranges ranges 50)"
  by (cases v) (simp_all add: get_score_category_def py_float_def bind_def)

lemma scan_ranges_first:
  assumes "ranges = pre @ (name, r) # post" "in_range r s" "\<forall>(n, q) \<in> set pre. \<not> in_range q s"
  shows "scan_ranges ranges s = name"
  using assms
proof (induction pre arbitrary: ranges)
  case Nil
  then show ?case by (simp add: in_range_def)
next
  case (Cons a pre)
  obtain n q where a: "a = (n, q)" by (cases a)
  have "\<not> in_range q s" using Cons.prems(3) a by simp
  moreover have "scan_ranges (pre @ (name, r) # post) s = name"
    using Cons.IH[of "pre @ (name, r) # post"] Cons.prems by simp
  ultimately show ?case using Cons.prems(1) a by (auto simp: in_range_def)
qed







text \<open>
  C10: on \<open>None\<close> and on every value that is not a number, \<open>get_score_category\<close> puts 50
  in its place: the answer is the one for the score 50, no exception is raised, and where
  a configured range holds 50 the answer is the name of the first such range.
\<close>

theorem get_score_category_default_50:
  "\<not> is_number v \<longrightarrow>
     get_score_category ranges v = get_score_category ranges (PyInt 50) \<and>
     (\<exists>name. get_score_category ranges v = Inr name) \<and>
     (\<forall>pre name r post.
        ranges = pre @ (name, r) # post \<and> in_range r 50 \<and> (\<forall>(n, q) \<in> set pre. \<not> in_range q 50)
        \<longrightarrow> get_score_category ranges v = Inr name)"
proof (intro impI conjI allI)
  assume nn: "\<not> is_number v"
  show "get_score_category ranges v = get_score_category ranges (PyInt 50)"
    using nn by (simp add: get_score_category_not_number get_score_category_number)
  show "\<exists>name. get_score_category ranges v = Inr name"
    using nn by (simp add: get_score_category_not_number)
  fix pre name r post
  assume "ranges = pre @ (name, r) # post \<and> in_range r 50 \<and> (\<forall>(n, q) \<in> set pre. \<not> in_range q 50)"
  then have "scan_ranges ranges 50 = name" using scan_ranges_first by blast
  then show "get_score_category ranges v = Inr name"
    using nn by (simp add: get_score_category_not_number)
qed

theorem get_score_category_default_50_witness:
  "\<not> is_number PyNone \<and> \<not> is_number (PyStr ''high'') \<and>
   get_score_category test_ranges PyNone = Inr ''poor'' \<and>
   get_score_category test_ranges (PyStr ''high'') = Inr ''poor'' \<and>
   get_score_category test_ranges (PyInt 50) = Inr ''poor''"
proof -
  let ?e = "\<lparr>range_min = 90, range_max = 100, range_color = ''#4CAF50''\<rparr>"
  let ?p = "\<lparr>range_min = 0, range_max = 59, range_color = ''#F44336''\<rparr>"
  have s: "test_ranges = [(''excellent'', ?e)] @ (''poor'', ?p) # [] \<and> in_range ?p 50 \<and>
           (\<forall>(n, q) \<in> set [(''excellent'', ?e)]. \<not> in_range q 50)"
    by (simp add: test_ranges_def in_range_def)
  have n1: "\<not> is_number PyNone" and n2: "\<not> is_number (PyStr ''high'')" by simp_all
  have a: "get_score_category test_ranges PyNone = Inr ''poor''"
    using get_score_category_default_50 [of PyNone test_ranges] n1 s by blast
  have b: "get_score_category test_ranges (PyStr ''high'') = Inr ''poor''"
    using get_score_category_default_50 [of "PyStr ''high''" test_ranges] n2 s by blast
  have c: "get_score_category test_ranges (PyInt 50) = Inr ''poor''"
    using get_score_category_default_50 [of PyNone test_ranges] n1 a by simp
  show ?thesis using a b c by simp
qed

section \<open>Vertical sections\<close>

lemma find_sections_loop_in_section:
  "fst (snd (find_sections_loop thr i vs (secs, ins, start))) =
     (if vs = [] then ins else last vs < thr)"
proof (induction vs arbitrary: i secs ins start)
  case Nil
  then show ?case by simp
next
  case (Cons v vs)
  show ?case
  proof (cases "vs = []")
    case True
    then show ?thesis by auto
  next
    case False
    then show ?thesis by (simp add: Cons.IH)
  qed
qed

lemma find_sections_open:
  assumes "profile \<noteq> []" "last profile < thr"
  shows "find_sections profile thr \<noteq> [] \<and> snd (last (find_sections profile thr)) = length profile"
proof -
  obtain secs ins start where st: "find_sections_loop thr 0 profile ([], False, 0) = (secs, ins, start)"
    by (metis prod_cases3)
  have "ins = (last profile < thr)"
    using find_sections_loop_in_section[of thr 0 profile "[]" False 0] assms(1) st by simp
  then have "ins" using assms(2) by simp
  then show ?thesis using st by (simp add: find_sections_def)
qed

text \<open>
  C6: on the profile 5, 5, 5, 50, 50, 5, 5, 30, 30, 30, 5, 5 with threshold 10,
  \<open>_find_sections\<close> returns the three sections (0, 3), (5, 7), (10, 12), so at least 2;
  and for every profile, a section that is open when the loop ends is appended with the
  length of the profile as its end. That is the case exactly when the last value lies
  below the threshold, and then the last section ends at the length of the profile.
\<close>

theorem find_sections_closes_open_section:
  "find_sections test_profile 10 = [(0, 3), (5, 7), (10, 12)] \<and>
   2 \<le> length (find_sections test_profile 10) \<and>
   (\<forall>secs start. find_sections_loop threshold 0 profile ([], False, 0) = (secs, True, start)
      \<longrightarrow> find_sections profile threshold = secs @ [(start, length profile)]) \<and>
   (profile \<noteq> [] \<and> last profile < threshold
      \<longrightarrow> find_sections profile threshold \<noteq> [] \<and>
          snd (last (find_sections profile threshold)) = length profile)"
proof (intro conjI allI impI)
  show e: "find_sections test_profile 10 = [(0, 3), (5, 7), (10, 12)]"
    by (simp add: find_sections_def test_profile_def)
  show "2 \<le> length (find_sections test_profile 10)"
    unfolding e by simp
next
  fix secs start
  assume "find_sections_loop threshold 0 profile ([], False, 0) = (secs, True, start)"
  then show "find_sections profile threshold = secs @ [(start, length profile)]"
    by (simp add: find_sections_def)
next
  assume a: "profile \<noteq> [] \<and> last profile < threshold"
  show "find_sections profile threshold \<noteq> []"
    using find_sections_open a by blast
  show "snd (last (find_sections profile threshold)) = length profile"
    using find_sections_open a by blast
qed

theorem find_sections_closes_open_section_witness:
  "test_profile \<noteq> [] \<and> last test_profile < 10 \<and>
   find_sections_loop 10 0 test_profile ([], False, 0) = ([(0, 3), (5, 7)], True, 10) \<and>
   find_sections test_profile 10 = [(0, 3), (5, 7)] @ [(10, length test_profile)] \<and>
   snd (last (find_sections test_profile 10)) = length test_profile"
proof -
  have l: "find_sections_loop 10 0 test_profile ([], False, 0) = ([(0, 3), (5, 7)], True, 10)"
    by (simp add: test_profile_def)
  have p: "test_profile \<noteq> [] \<and> last test_profile < 10"
    by (simp add: test_profile_def)
  show ?thesis
    using find_sections_closes_open_section [of 10 test_profile] l p by blast
qed

section \<open>The complete analysis\<close>

lemma analyze_with_openai_total: "analyze_with_openai env = Inr (ai_of env)"
  by (simp add: analyze_with_openai_def ai_of_def split: sum.splits)

lemma analyze_colors_total: "analyze_colors env = Inr (colors_of env)"
  by (simp add: analyze_colors_def colors_of_def split: sum.splits)

lemma analyze_layout_total: "analyze_layout env = Inr (layout_of env)"
  by (simp add: analyze_layout_def layout_of_def split: sum.splits)

lemma category_entry_dict:
  "category_entry (PyDict kvs) name tech = Inr (entry_of kvs name tech)"
  by (simp add: category_entry_def py_get_def bind_def entry_of_def)

lemma category_entry_not_dict:
  "\<not> is_dict ai \<Longrightarrow>
   category_entry ai name tech =
     Inl (AttributeError (quoted (type_name ai) @ '' object has no attribute '' @ quoted ''get''))"
  by (cases ai) (simp_all add: category_entry_def py_get_def bind_def)

lemma analyze_design_image_error:
  "image_open env = Inl e \<Longrightarrow> analyze_design env = Inl e"
  by (simp add: analyze_design_def bind_def)

lemma analyze_design_dict:
  assumes "image_open env = Inr ()" "ai_of env = PyDict kvs"
  shows "analyze_design env =
     Inr [(''typography'', entry_of kvs ''typography'' (Some (TypographyData (typography_analysis env)))),
          (''color'', entry_of kvs ''color'' (Some (ColorData (colors_of env)))),
          (''layout'', entry_of kvs ''layout'' (Some (LayoutData (layout_of env)))),
          (''usability'', entry_of kvs ''usability'' None),
          (''modern_design'', entry_of kvs ''modern_design'' None)]"
  using assms
  by (simp add: analyze_design_def analyze_with_openai_total analyze_colors_total
      analyze_layout_total category_entry_dict bind_def)

lemma analyze_design_not_dict:
  assumes "image_open env = Inr ()" "\<not> is_dict (ai_of env)"
  shows "analyze_design env =
     Inl (AttributeError (quoted (type_name (ai_of env)) @ '' object has no attribute '' @ quoted ''get''))"
  using assms
  by (simp add: analyze_design_def analyze_with_openai_total analyze_colors_total
      analyze_layout_total category_entry_not_dict bind_def)

lemma analyze_design_isl:
  "isl (analyze_design env) \<longleftrightarrow> isl (image_open env) \<or> \<not> is_dict (ai_of env)"
proof (cases "image_open env")
  case (Inl e)
  then show ?thesis by (simp add: analyze_design_image_error)
next
  case (Inr u)
  then have i: "image_open env = Inr ()" by simp
  show ?thesis
  proof (cases "is_dict (ai_of env)")
    case True
    then obtain kvs where "ai_of env = PyDict kvs" by (cases "ai_of env") simp_all
    then show ?thesis using i True by (simp add: analyze_design_dict)
  next
    case False
    then show ?thesis using i by (simp add: analyze_design_not_dict)
  qed
qed

lemma analyze_design_color_data:
  assumes "analyze_design env = Inr res"
  shows "map_option technical_data (map_of res ''color'') = Some (Some (ColorData (colors_of env)))"
proof -
  have n: "\<not> isl (analyze_design env)" using assms by simp
  have i: "image_open env = Inr ()"
    using n unfolding analyze_design_isl by (cases "image_open env") simp_all
  have d: "is_dict (ai_of env)"
    using n unfolding analyze_design_isl by simp
  obtain kvs where "ai_of env = PyDict kvs" using d by (cases "ai_of env") simp_all
  then show ?thesis using assms i by (auto simp: analyze_design_dict entry_of_def)
qed

lemma ai_of_offline: "ai_of offline_env = openai_failure_default"
  by (simp add: ai_of_def openai_request_def offline_env_def bind_def)

lemma final_offline:
  "bind (analyze_design offline_env) (calculate_final_score test_weights) = Inr 70"
proof -
  have i: "image_open offline_env = Inr ()" by (simp add: offline_env_def)
  show ?thesis
    unfolding analyze_design_dict[OF i ai_of_offline[unfolded openai_failure_default_def]]
    by (simp add: bind_def entry_of_def calculate_final_score_def test_weights_def py_mul_def
        py_round_def round_half_even_def)
qed

lemma final_offline': "calculate_final_score test_weights (projr (analyze_design offline_env)) = Inr 70"
  using final_offline
  by (cases "analyze_design offline_env") (simp_all add: bind_def)

lemma design_offline_ok: "\<exists>r. analyze_design offline_env = Inr r"
  using final_offline by (cases "analyze_design offline_env") (simp_all add: bind_def)

section \<open>Batch evaluation\<close>

lemma evaluate_website_url:
  "evaluate_website ev u sc ss w = (Inr d, w') \<Longrightarrow> url d = u"
  unfolding evaluate_website_def bind_w_def read_w_def pure_w_def Let_def
  by (auto split: if_splits prod.splits sum.splits)

lemma batch_loop_append:
  "batch_loop ev sc ss (xs @ ys) acc w =
     (case batch_loop ev sc ss xs acc w of (r, w') \<Rightarrow> batch_loop ev sc ss ys r w')"
  by (induction xs arbitrary: acc w) (auto split: prod.splits sum.splits)

lemma batch_loop_acc:
  "batch_loop ev sc ss xs acc w =
     (acc @ fst (batch_loop ev sc ss xs [] w), snd (batch_loop ev sc ss xs [] w))"
proof (induction xs arbitrary: acc w)
  case Nil
  then show ?case by simp
next
  case (Cons u xs)
  show ?case
  proof (cases "evaluate_website ev u sc ss w")
    case (Pair r w')
    show ?thesis
    proof (cases r)
      case (Inl e)
      obtain st w'' where n: "now_isoformat ev w' = (st, w'')" by (cases "now_isoformat ev w'")
      show ?thesis
        using Pair Inl n Cons.IH[of "acc @ [ErrorRecord u (exn_str e) st]" w'']
          Cons.IH[of "[ErrorRecord u (exn_str e) st]" w'']
        by simp
    next
      case (Inr d)
      show ?thesis
        using Pair Inr Cons.IH[of "acc @ [Evaluated d]" w'] Cons.IH[of "[Evaluated d]" w']
        by simp
    qed
  qed
qed

lemma batch_loop_single:
  "fst (batch_loop ev sc ss [u] [] w) = [batch_slot ev sc ss u w]"
  by (auto simp: batch_slot_def split: prod.splits sum.splits)

lemma batch_evaluate_snoc:
  "fst (batch_evaluate ev (xs @ [u]) sc ss w) =
     fst (batch_evaluate ev xs sc ss w) @ [batch_slot ev sc ss u (snd (batch_evaluate ev xs sc ss w))]"
proof -
  obtain r w' where p: "batch_loop ev sc ss xs [] w = (r, w')" by (cases "batch_loop ev sc ss xs [] w")
  have "batch_loop ev sc ss (xs @ [u]) [] w = batch_loop ev sc ss [u] r w'"
    using p by (simp add: batch_loop_append)
  then have "fst (batch_loop ev sc ss (xs @ [u]) [] w) = r @ fst (batch_loop ev sc ss [u] [] w')"
    using batch_loop_acc[of ev sc ss "[u]" r w'] by (simp only: fst_conv)
  then have "fst (batch_loop ev sc ss (xs @ [u]) [] w) = r @ [batch_slot ev sc ss u w']"
    by (simp only: batch_loop_single)
  then show ?thesis
    using p by (simp only: batch_evaluate_def fst_conv snd_conv)
qed

lemma batch_slot_url: "entry_url (batch_slot ev sc ss u w) = u"
  by (auto simp: batch_slot_def split: prod.splits sum.splits dest: evaluate_website_url)

text \<open>
  C3: for every list of URLs, \<open>batch_evaluate\<close> returns as many results as there are
  URLs, in the order of the input (the entry at each position is about the URL at that
  position). The entry at position \<open>i\<close> is what the evaluation of the \<open>i\<close>-th URL
  gives in the world the earlier evaluations have left: the evaluation's result, or, when
  the evaluation raises, an error record with the URL, the text of the exception and a
  timestamp. So a failure fills its own slot only, and every URL is evaluated.
\<close>

theorem batch_evaluate_isolates_failures:
  "length (fst (batch_evaluate ev urls sc ss w)) = length urls \<and>
   map entry_url (fst (batch_evaluate ev urls sc ss w)) = urls \<and>
   (\<forall>i. i < length urls \<longrightarrow>
      fst (batch_evaluate ev urls sc ss w) ! i =
        batch_slot ev sc ss (urls ! i) (snd (batch_evaluate ev (take i urls) sc ss w)))"
proof (induction urls rule: rev_induct)
  case Nil
  then show ?case by (simp add: batch_evaluate_def)
next
  case (snoc u xs)
  let ?r = "fst (batch_evaluate ev xs sc ss w)"
  have len: "length ?r = length xs" using snoc by simp
  have s: "fst (batch_evaluate ev (xs @ [u]) sc ss w) =
             ?r @ [batch_slot ev sc ss u (snd (batch_evaluate ev xs sc ss w))]"
    by (rule batch_evaluate_snoc)
  have a: "length (fst (batch_evaluate ev (xs @ [u]) sc ss w)) = length (xs @ [u])"
    unfolding s using len by simp
  have b: "map entry_url (fst (batch_evaluate ev (xs @ [u]) sc ss w)) = xs @ [u]"
    unfolding s using snoc by (simp add: batch_slot_url)
  have c: "\<forall>i. i < length (xs @ [u]) \<longrightarrow>
      fst (batch_evaluate ev (xs @ [u]) sc ss w) ! i =
        batch_slot ev sc ss ((xs @ [u]) ! i) (snd (batch_evaluate ev (take i (xs @ [u])) sc ss w))"
  proof (intro allI impI)
    fix i assume i: "i < length (xs @ [u])"
    show "fst (batch_evaluate ev (xs @ [u]) sc ss w) ! i =
        batch_slot ev sc ss ((xs @ [u]) ! i) (snd (batch_evaluate ev (take i (xs @ [u])) sc ss w))"
    proof (cases "i < length xs")
      case True
      then show ?thesis unfolding s using snoc len by (simp add: nth_append)
    next
      case False
      then have "i = length xs" using i by simp
      then show ?thesis unfolding s using len by (simp add: nth_append)
    qed
  qed
  show ?case using a b c by blast
qed

text \<open>
  The witness: three URLs, the capture of the second one fails. Three results come back;
  the second is the error record, the third is a full evaluation with final score 70.
\<close>

lemma validate_demo:
  "validate_url demo_evaluator ''http://a.example''"
  "validate_url demo_evaluator ''http://down.example''"
  "validate_url demo_evaluator ''http://b.example''"
  by (simp_all add: validate_url_def demo_evaluator_def)

lemma demo_fields:
  "scoring_weights demo_evaluator = test_weights"
  "capture_website demo_evaluator = (\<lambda>u w. if u = ''http://down.example''
                                then (Inl (External ''page load timed out''), Suc w)
                                else (Inr (''screenshots/'' @ drop 7 u @ ''.png''), Suc w))"
  "upload_screenshot demo_evaluator = (\<lambda>path w. (Inr None, w))"
  "observe demo_evaluator = (\<lambda>path w. (offline_env, w))"
  "generate_report demo_evaluator = (\<lambda>d w. (Inr ''reports/report.pdf'', w))"
  "log_evaluation demo_evaluator = (\<lambda>d w. (Inr False, w))"
  "now_isoformat demo_evaluator = (\<lambda>w. (clock_stamps ! w, Suc w))"
  "time_time demo_evaluator = (\<lambda>w. (of_nat w, Suc w))"
  by (simp_all add: demo_evaluator_def)

lemma demo_down:
  "evaluate_website demo_evaluator ''http://down.example'' True True w =
     (Inl (External ''page load timed out''), Suc (Suc w))"
  by (simp add: evaluate_website_def validate_demo demo_fields bind_w_def read_w_def pure_w_def)

lemma demo_up:
  assumes "u = ''http://a.example'' \<or> u = ''http://b.example''"
  shows "\<exists>d. evaluate_website demo_evaluator u True True w = (Inr d, w + 4) \<and> final_score d = 70"
proof -
  obtain r where r: "analyze_design offline_env = Inr r" using design_offline_ok by blast
  have f: "calculate_final_score test_weights r = Inr 70" using final_offline' r by simp
  have v: "validate_url demo_evaluator u" using assms validate_demo by auto
  have nd: "u \<noteq> ''http://down.example''" using assms by auto
  show ?thesis
    using v nd r f
    by (simp add: evaluate_website_def demo_fields bind_w_def read_w_def pure_w_def Let_def)
qed

theorem batch_evaluate_isolates_failures_witness:
  "length (fst (batch_evaluate demo_evaluator demo_urls True True 0)) = 3 \<and>
   map entry_url (fst (batch_evaluate demo_evaluator demo_urls True True 0)) = demo_urls \<and>
   snd (batch_evaluate demo_evaluator (take 1 demo_urls) True True 0) = 4 \<and>
   fst (batch_evaluate demo_evaluator demo_urls True True 0) ! 1 =
     ErrorRecord ''http://down.example'' ''page load timed out'' ''2024-01-01T12:00:06'' \<and>
   (\<exists>d. fst (batch_evaluate demo_evaluator demo_urls True True 0) ! 2 = Evaluated d \<and>
        final_score d = 70)"
proof -
  note t = batch_evaluate_isolates_failures [of demo_evaluator demo_urls True True 0]
  obtain d0 where d0: "evaluate_website demo_evaluator ''http://a.example'' True True 0 = (Inr d0, 4)"
    using demo_up[of "''http://a.example''" 0] by auto
  have w1: "snd (batch_evaluate demo_evaluator (take 1 demo_urls) True True 0) = 4"
    using d0 by (simp add: demo_urls_def batch_evaluate_def)
  have w2: "snd (batch_evaluate demo_evaluator (take 2 demo_urls) True True 0) = 7"
    using d0 demo_down[of 4]
    by (simp add: demo_urls_def batch_evaluate_def demo_fields numeral_2_eq_2)
  have s1: "batch_slot demo_evaluator True True ''http://down.example'' 4 =
     ErrorRecord ''http://down.example'' ''page load timed out'' ''2024-01-01T12:00:06''"
    using demo_down[of 4] by (simp add: batch_slot_def demo_fields clock_stamps_def)
  obtain d2 where d2: "evaluate_website demo_evaluator ''http://b.example'' True True 7 = (Inr d2, 7 + 4)"
     and f2: "final_score d2 = 70"
    using demo_up[of "''http://b.example''" 7] by auto
  have s2: "batch_slot demo_evaluator True True ''http://b.example'' 7 = Evaluated d2"
    using d2 by (simp add: batch_slot_def)
  have l: "length demo_urls = 3" by (simp add: demo_urls_def)
  have n1: "fst (batch_evaluate demo_evaluator demo_urls True True 0) ! 1 =
     batch_slot demo_evaluator True True (demo_urls ! 1)
       (snd (batch_evaluate demo_evaluator (take 1 demo_urls) True True 0))"
    using t l by simp
  have n2: "fst (batch_evaluate demo_evaluator demo_urls True True 0) ! 2 =
     batch_slot demo_evaluator True True (demo_urls ! 2)
       (snd (batch_evaluate demo_evaluator (take 2 demo_urls) True True 0))"
    using t l by simp
  have u1: "demo_urls ! 1 = ''http://down.example''" and u2: "demo_urls ! 2 = ''http://b.example''"
    by (simp_all add: demo_urls_def)
  show ?thesis
    using t l w1 n1 n2 s1 s2 f2 unfolding u1 u2 w1 w2 by simp
qed

section \<open>Failure of the vision model\<close>

text \<open>A reply wrapped in a markdown fence is unwrapped before it is parsed.\<close>

lemma fenced_reply_is_cleaned:
  "startswith (''```json'' @ [CHR 0x0A] @ ''{}'' @ [CHR 0x0A] @ ''```'') ''```json'' \<and>
   py_strip whitespace (py_strip ''```'' (py_strip ''```json''
      (''```json'' @ [CHR 0x0A] @ ''{}'' @ [CHR 0x0A] @ ''```''))) = ''{}''"
  by (simp add: startswith_def py_strip_def whitespace_def)



text \<open>
  A reply that does parse is not a failure of the call: it is returned as it is. Where it
  is a JSON value other than an object (a list, a string, a number, \<open>null\<close>),
  \<open>analyze_design\<close> calls \<open>get\<close> on it and raises.
\<close>

lemma analyze_design_non_object_reply:
  assumes "image_open env = Inr ()" "openai_request env = Inr v" "\<not> is_dict v"
  shows "analyze_design env =
     Inl (AttributeError (quoted (type_name v) @ '' object has no attribute '' @ quoted ''get''))"
  using analyze_design_not_dict[of env] assms by (simp add: ai_of_def)

section \<open>The layout descriptor\<close>

lemma layout_request_ratio:
  "layout_request env = Inr d \<Longrightarrow> whitespace_ratio d = 1 - content_density d"
  unfolding layout_request_def bind_def Let_def
  by (auto split: sum.splits if_splits)

text \<open>
  C7: where the \<open>try\<close> block of \<open>_analyze_layout\<close> succeeds, the whitespace ratio of
  the result is 1 minus its content density. Where it raises, the fixed defaults are
  returned: density 0.5, 3 sections, balance 10.0, and the whitespace ratio 0.3, which is
  not 1 minus the density.
\<close>

theorem analyze_layout_whitespace_ratio:
  "(\<forall>d. layout_request env = Inr d \<longrightarrow>
        analyze_layout env = Inr d \<and> whitespace_ratio d = 1 - content_density d) \<and>
   (\<forall>e. layout_request env = Inl e \<longrightarrow>
        analyze_layout env = Inr default_layout_analysis) \<and>
   content_density default_layout_analysis = 1 / 2 \<and>
   sections_detected default_layout_analysis = 3 \<and>
   horizontal_balance default_layout_analysis = Some 10 \<and>
   whitespace_ratio default_layout_analysis = 3 / 10 \<and>
   whitespace_ratio default_layout_analysis \<noteq> 1 - content_density default_layout_analysis"
proof (intro conjI allI impI)
  fix d assume "layout_request env = Inr d"
  then show "analyze_layout env = Inr d" "whitespace_ratio d = 1 - content_density d"
    by (simp_all add: analyze_layout_def layout_request_ratio)
next
  fix e assume "layout_request env = Inl e"
  then show "analyze_layout env = Inr default_layout_analysis"
    by (simp add: analyze_layout_def)
next
  show "content_density default_layout_analysis = 1 / 2"
    by (simp add: default_layout_analysis_def)
  show "sections_detected default_layout_analysis = 3"
    by (simp add: default_layout_analysis_def)
  show "horizontal_balance default_layout_analysis = Some 10"
    by (simp add: default_layout_analysis_def)
  show "whitespace_ratio default_layout_analysis = 3 / 10"
    by (simp add: default_layout_analysis_def)
  show "whitespace_ratio default_layout_analysis \<noteq> 1 - content_density default_layout_analysis"
    by (simp add: default_layout_analysis_def)
qed

lemma small_gray_request:
  "layout_request small_gray_env =
     Inr \<lparr>content_density = 3 / 8, line_count = 0, sections_detected = 0,
          horizontal_balance = Some (335 / 2), whitespace_ratio = 5 / 8,
          image_dimensions = (4, 2)\<rparr>"
  by (simp add: layout_request_def small_gray_env_def offline_env_def bind_def np_mean_def
      find_sections_def)

text \<open>
  The witness: an image that cannot be read gives the defaults; a grey image of two rows
  and four columns gives density 3/8 and whitespace ratio 5/8.
\<close>

theorem analyze_layout_whitespace_ratio_witness:
  "layout_request offline_env = Inl (External ''!_src.empty() in function cvtColor'') \<and>
   analyze_layout offline_env = Inr default_layout_analysis \<and>
   analyze_layout small_gray_env =
     Inr \<lparr>content_density = 3 / 8, line_count = 0, sections_detected = 0,
          horizontal_balance = Some (335 / 2), whitespace_ratio = 5 / 8,
          image_dimensions = (4, 2)\<rparr>"
proof -
  have f: "layout_request offline_env = Inl (External ''!_src.empty() in function cvtColor'')"
    by (simp add: layout_request_def offline_env_def bind_def)
  show ?thesis
    using analyze_layout_whitespace_ratio [of offline_env]
      analyze_layout_whitespace_ratio [of small_gray_env] f small_gray_request
    by simp
qed

section \<open>Failure of the colour analysis\<close>

lemma ai_of_color_update [simp]:
  "ai_of (env\<lparr>to_rgb_pixels := a, random_choice := b, kmeans_centers := c, stat_mean := d,
             gray_std := f, gray_mean := g\<rparr>) = ai_of env"
  by (simp add: ai_of_def openai_request_def cong: option.case_cong)

lemma layout_of_color_update [simp]:
  "layout_of (env\<lparr>to_rgb_pixels := a, random_choice := b, kmeans_centers := c, stat_mean := d,
             gray_std := f, gray_mean := g\<rparr>) = layout_of env"
  by (simp add: layout_of_def layout_request_def)

text \<open>
  C8: if the colour analysis throws, the neutral-grey default descriptor stands in its
  place (dominant colour (128, 128, 128), average RGB [128, 128, 128], contrast 50.0,
  brightness 128.0, diversity 100) and is the colour entry's technical data in the result
  of \<open>analyze_design\<close>; \<open>_analyze_colors\<close> never raises; and whether
  \<open>analyze_design\<close> raises does not depend on what the colour analysis's library calls
  answer.
\<close>

theorem analyze_colors_failure_default:
  "(\<forall>e. color_request env = Inl e \<longrightarrow>
        analyze_colors env = Inr default_color_analysis \<and>
        (\<forall>res. analyze_design env = Inr res \<longrightarrow>
           map_option technical_data (map_of res ''color'') =
             Some (Some (ColorData default_color_analysis)))) \<and>
   (\<exists>d. analyze_colors env = Inr d) \<and>
   dominant_colors default_color_analysis = [(128, 128, 128)] \<and>
   average_rgb default_color_analysis = [128, 128, 128] \<and>
   contrast_level default_color_analysis = 50 \<and>
   brightness default_color_analysis = 128 \<and>
   color_diversity default_color_analysis = 100 \<and>
   isl (analyze_design (env\<lparr>to_rgb_pixels := a, random_choice := b, kmeans_centers := c,
                            stat_mean := d, gray_std := f, gray_mean := g\<rparr>)) =
     isl (analyze_design env)"
proof (intro conjI allI impI)
  fix e assume e: "color_request env = Inl e"
  then show "analyze_colors env = Inr default_color_analysis"
    by (simp add: analyze_colors_def)
  fix res assume "analyze_design env = Inr res"
  then show "map_option technical_data (map_of res ''color'') =
             Some (Some (ColorData default_color_analysis))"
    using analyze_design_color_data[of env res] e by (simp add: colors_of_def)
next
  show "\<exists>d. analyze_colors env = Inr d" by (simp add: analyze_colors_total)
next
  show "isl (analyze_design (env\<lparr>to_rgb_pixels := a, random_choice := b, kmeans_centers := c,
                            stat_mean := d, gray_std := f, gray_mean := g\<rparr>)) =
     isl (analyze_design env)"
    by (simp add: analyze_design_isl)
qed (simp_all add: default_color_analysis_def)

text \<open>
  The witness: the image file is truncated, so the conversion to RGB raises; the analysis
  still returns, with the default descriptor as the colour entry's technical data.
\<close>

theorem analyze_colors_failure_default_witness:
  "color_request offline_env = Inl (External ''image file is truncated'') \<and>
   analyze_colors offline_env = Inr default_color_analysis \<and>
   (\<exists>res. analyze_design offline_env = Inr res \<and>
      map_option technical_data (map_of res ''color'') =
        Some (Some (ColorData default_color_analysis)))"
proof -
  have f: "color_request offline_env = Inl (External ''image file is truncated'')"
    by (simp add: color_request_def offline_env_def bind_def)
  obtain res where r: "analyze_design offline_env = Inr res" using design_offline_ok by blast
  show ?thesis
    using analyze_colors_failure_default [of offline_env] f r by blast
qed

section \<open>Sampling and clustering\<close>



















end
